theory Spec2Isabelle
  imports Complex_Main
begin

section \<open>Floating-point values of the numeric library\<close>

text \<open>
  The pooling functions of \<^verbatim>\<open>metapool.py\<close> compute on numpy arrays of IEEE doubles.
  A double is modelled by its exact real value, or by one of the three special values
  that the functions produce and test for: the two infinities and not-a-number.
  Rounding error, overflow of finite results and the sign of zero are not modelled:
  finite arithmetic is exact arithmetic on \<^typ>\<open>real\<close>, and a division of a finite
  number by zero takes the sign of its numerator.
  The library runs with its default error state, in which a division by zero or an
  invalid operation prints a warning and returns the special value.
\<close>

datatype npfloat = Fin real | PInf | NInf | NaN

datatype error = ValueError | IndexError | ZeroDivisionError

fun fneg :: "npfloat \<Rightarrow> npfloat" where
  "fneg (Fin a) = Fin (- a)"
| "fneg PInf = NInf"
| "fneg NInf = PInf"
| "fneg NaN = NaN"

text \<open>Sign of a value that is not NaN, as \<open>-1\<close>, \<open>0\<close> or \<open>1\<close>.\<close>

fun fsgn :: "npfloat \<Rightarrow> int" where
  "fsgn (Fin a) = (if a < 0 then - 1 else if a = 0 then 0 else 1)"
| "fsgn PInf = 1"
| "fsgn NInf = - 1"
| "fsgn NaN = 0"

definition inf_of_sign :: "int \<Rightarrow> npfloat" where
  "inf_of_sign s = (if s < 0 then NInf else if s = 0 then NaN else PInf)"

fun fadd :: "npfloat \<Rightarrow> npfloat \<Rightarrow> npfloat" where
  "fadd NaN _ = NaN"
| "fadd _ NaN = NaN"
| "fadd (Fin a) (Fin b) = Fin (a + b)"
| "fadd (Fin a) y = y"
| "fadd x (Fin b) = x"
| "fadd PInf PInf = PInf"
| "fadd NInf NInf = NInf"
| "fadd PInf NInf = NaN"
| "fadd NInf PInf = NaN"

fun fmul :: "npfloat \<Rightarrow> npfloat \<Rightarrow> npfloat" where
  "fmul NaN _ = NaN"
| "fmul _ NaN = NaN"
| "fmul (Fin a) (Fin b) = Fin (a * b)"
| "fmul x y = inf_of_sign (fsgn x * fsgn y)"

fun fdiv :: "npfloat \<Rightarrow> npfloat \<Rightarrow> npfloat" where
  "fdiv NaN _ = NaN"
| "fdiv _ NaN = NaN"
| "fdiv (Fin a) (Fin b) = (if b = 0 then inf_of_sign (fsgn (Fin a)) else Fin (a / b))"
| "fdiv (Fin a) y = Fin 0"
| "fdiv x (Fin b) = (if b < 0 then fneg x else x)"
| "fdiv x y = NaN"

text \<open>Comparisons: every comparison with NaN is false.\<close>

fun flt :: "npfloat \<Rightarrow> npfloat \<Rightarrow> bool" where
  "flt NaN _ = False"
| "flt _ NaN = False"
| "flt (Fin a) (Fin b) = (a < b)"
| "flt NInf y = (y \<noteq> NInf)"
| "flt x PInf = (x \<noteq> PInf)"
| "flt _ _ = False"

definition fle :: "npfloat \<Rightarrow> npfloat \<Rightarrow> bool" where
  "fle x y = (x \<noteq> NaN \<and> y \<noteq> NaN \<and> (x = y \<or> flt x y))"

text \<open>\<^verbatim>\<open>np.maximum\<close> and \<^verbatim>\<open>np.minimum\<close> propagate NaN.\<close>

definition fmax :: "npfloat \<Rightarrow> npfloat \<Rightarrow> npfloat" where
  "fmax x y = (if x = NaN \<or> y = NaN then NaN else if flt x y then y else x)"

definition fmin :: "npfloat \<Rightarrow> npfloat \<Rightarrow> npfloat" where
  "fmin x y = (if x = NaN \<or> y = NaN then NaN else if flt y x then y else x)"

text \<open>\<^verbatim>\<open>np.clip(a, lo, hi)\<close> is \<^verbatim>\<open>minimum(maximum(a, lo), hi)\<close>.\<close>

definition clip :: "npfloat \<Rightarrow> npfloat \<Rightarrow> npfloat \<Rightarrow> npfloat" where
  "clip x lo hi = fmin (fmax x lo) hi"

text \<open>The largest finite double, \<open>(2 - 2\<^sup>-\<^sup>5\<^sup>2) \<sqdot> 2\<^sup>1\<^sup>0\<^sup>2\<^sup>3\<close>.\<close>

definition float_max :: real where
  "float_max = (2 ^ 53 - 1) * 2 ^ 971"

text \<open>\<^verbatim>\<open>np.nan_to_num\<close>: NaN becomes zero, an infinity the largest finite double
  of its sign.\<close>

fun nan_to_num :: "npfloat \<Rightarrow> npfloat" where
  "nan_to_num NaN = Fin 0"
| "nan_to_num PInf = Fin float_max"
| "nan_to_num NInf = Fin (- float_max)"
| "nan_to_num (Fin a) = Fin a"

text \<open>
  \<^verbatim>\<open>np.round\<close> with no decimals rounds to the nearest integer and a value halfway
  between two integers to the even one. \<open>rint\<close> computes it from the floor and the
  fractional part.
\<close>

definition rint :: "real \<Rightarrow> int" where
  "rint x =
     (let f = \<lfloor>x\<rfloor>; d = x - of_int f
      in if d < 1 / 2 then f
         else if 1 / 2 < d then f + 1
         else if even f then f else f + 1)"

fun np_round :: "npfloat \<Rightarrow> npfloat" where
  "np_round (Fin a) = Fin (of_int (rint a))"
| "np_round x = x"

section \<open>Normalized volumes\<close>

text \<open>
  \<^verbatim>\<open>calculate_norm_vol(dna_concs, ng, min_vol, max_vol, resolution)\<close>, three
  element-wise passes over the array: the volume \<^verbatim>\<open>ng / nan_to_num(conc) * 1000\<close>,
  the clip to the volume bounds, and the snap to the dispensing resolution.
  The array is the list of its elements; the scalar parameters are finite numbers.
\<close>

definition snap_to_resolution :: "real \<Rightarrow> npfloat \<Rightarrow> npfloat" where
  "snap_to_resolution resolution v =
     fmul (np_round (fdiv v (Fin resolution))) (Fin resolution)"


definition calculate_norm_vol ::
  "npfloat list \<Rightarrow> real \<Rightarrow> real \<Rightarrow> real \<Rightarrow> real \<Rightarrow> npfloat list" where
  "calculate_norm_vol dna_concs ng min_vol max_vol resolution =
     (let sample_vols = map (\<lambda>c. fmul (fdiv (Fin ng) (nan_to_num c)) (Fin 1000)) dna_concs;
          sample_vols = map (\<lambda>v. clip v (Fin min_vol) (Fin max_vol)) sample_vols;
          sample_vols = map (snap_to_resolution resolution) sample_vols
      in sample_vols)"

section \<open>Pooling volumes from qPCR concentrations\<close>

text \<open>
  The pooling functions work element by element and on the sum of all elements, so an
  array is the list of its elements in row-major order, and two arrays have the same
  shape when the lists have the same length. \<^verbatim>\<open>ndarray.sum\<close> of no elements is
  zero; with exact finite arithmetic the order of the additions does not matter.
\<close>

definition np_sum :: "npfloat list \<Rightarrow> npfloat" where
  "np_sum xs = foldl fadd (Fin 0) xs"

text \<open>\<^verbatim>\<open>np.ones(sample_concs.shape) / sample_concs.size\<close>\<close>

definition default_fracs :: "npfloat list \<Rightarrow> npfloat list" where
  "default_fracs sample_concs =
     map (\<lambda>one. fdiv one (Fin (real (length sample_concs))))
       (replicate (length sample_concs) (Fin 1))"

definition fracs_or_default :: "npfloat list option \<Rightarrow> npfloat list \<Rightarrow> npfloat list" where
  "fracs_or_default sample_fracs sample_concs =
     (case sample_fracs of None \<Rightarrow> default_fracs sample_concs | Some f \<Rightarrow> f)"

text \<open>
  The assignment \<^verbatim>\<open>a[mask] = v\<close> through a Boolean mask: the mask must have the shape
  of the array, otherwise the library raises \<^verbatim>\<open>IndexError\<close>.
\<close>

definition mask_assign :: "npfloat list \<Rightarrow> bool list \<Rightarrow> npfloat \<Rightarrow> error + npfloat list" where
  "mask_assign a msk v =
     (if length msk \<noteq> length a then Inl IndexError
      else Inr (map (\<lambda>(x, m). if m then v else x) (zip a msk)))"

text \<open>
  An element-wise operation on two arrays: equal shapes, or one of them a single
  element that is broadcast; any other pair of shapes raises \<^verbatim>\<open>ValueError\<close>.
\<close>

definition broadcast2 ::
  "(npfloat \<Rightarrow> npfloat \<Rightarrow> npfloat) \<Rightarrow> npfloat list \<Rightarrow> npfloat list \<Rightarrow> error + npfloat list" where
  "broadcast2 f xs ys =
     (if length xs = length ys then Inr (map (\<lambda>(x, y). f x y) (zip xs ys))
      else if length xs = 1 then Inr (map (\<lambda>y. f (hd xs) y) ys)
      else if length ys = 1 then Inr (map (\<lambda>x. f x (hd ys)) xs)
      else Inl ValueError)"

text \<open>
  The first half of \<^verbatim>\<open>compute_shotgun_pooling_values_qpcr\<close>: the weights of the
  samples at or below \<^verbatim>\<open>min_conc\<close> are set to zero
  (\<^verbatim>\<open>sample_fracs_pass[sample_concs <= min_conc] = 0\<close>), then all weights are
  multiplied by the reciprocal of their sum.
\<close>

definition sample_fracs_pass :: "npfloat list \<Rightarrow> npfloat list \<Rightarrow> real \<Rightarrow> error + npfloat list" where
  "sample_fracs_pass sample_concs sample_fracs min_conc =
     mask_assign sample_fracs (map (\<lambda>c. fle c (Fin min_conc)) sample_concs) (Fin 0)"

definition renormalize :: "npfloat list \<Rightarrow> npfloat list" where
  "renormalize fracs_pass =
     (let r = fdiv (Fin 1) (np_sum fracs_pass) in map (\<lambda>w. fmul w r) fracs_pass)"

text \<open>\<^verbatim>\<open>sample_concs_floor[sample_concs < floor_conc] = floor_conc\<close>\<close>

definition sample_concs_floor :: "npfloat list \<Rightarrow> real \<Rightarrow> error + npfloat list" where
  "sample_concs_floor sample_concs floor_conc =
     mask_assign sample_concs (map (\<lambda>c. flt c (Fin floor_conc)) sample_concs) (Fin floor_conc)"

definition compute_shotgun_pooling_values_qpcr ::
  "npfloat list \<Rightarrow> npfloat list option \<Rightarrow> real \<Rightarrow> real \<Rightarrow> real \<Rightarrow> error + npfloat list" where
  "compute_shotgun_pooling_values_qpcr sample_concs sample_fracs min_conc floor_conc total_nmol =
     (let sample_fracs = fracs_or_default sample_fracs sample_concs
      in case sample_fracs_pass sample_concs sample_fracs min_conc of
           Inl e \<Rightarrow> Inl e
         | Inr fracs_pass \<Rightarrow>
             (let fracs_pass = renormalize fracs_pass
              in case sample_concs_floor sample_concs floor_conc of
                   Inl e \<Rightarrow> Inl e
                 | Inr concs_floor \<Rightarrow>
                     (case broadcast2 fdiv (map (fmul (Fin total_nmol)) fracs_pass) concs_floor of
                        Inl e \<Rightarrow> Inl e
                      | Inr sample_vols \<Rightarrow> Inr (map (\<lambda>v. fmul v (Fin (10 ^ 9))) sample_vols))))"

text \<open>
  \<^verbatim>\<open>compute_shotgun_pooling_values_qpcr_minvol\<close>: the volumes
  \<^verbatim>\<open>(total_nmol * sample_fracs) / sample_concs\<close>, times \<^verbatim>\<open>10**9\<close>, and then
  \<^verbatim>\<open>sample_vols[sample_concs < floor_conc] = floor_vol\<close>.
\<close>

definition compute_shotgun_pooling_values_qpcr_minvol ::
  "npfloat list \<Rightarrow> npfloat list option \<Rightarrow> real \<Rightarrow> real \<Rightarrow> real \<Rightarrow> error + npfloat list" where
  "compute_shotgun_pooling_values_qpcr_minvol sample_concs sample_fracs floor_vol floor_conc
       total_nmol =
     (let sample_fracs = fracs_or_default sample_fracs sample_concs
      in case broadcast2 fdiv (map (fmul (Fin total_nmol)) sample_fracs) sample_concs of
           Inl e \<Rightarrow> Inl e
         | Inr sample_vols \<Rightarrow>
             (let sample_vols = map (\<lambda>v. fmul v (Fin (10 ^ 9))) sample_vols
              in mask_assign sample_vols (map (\<lambda>c. flt c (Fin floor_conc)) sample_concs)
                   (Fin floor_vol)))"

text \<open>
  The values of the samples that survive the exclusion, those whose concentration is
  not at or below \<^verbatim>\<open>min_conc\<close>, out of an array \<open>xs\<close> of the shape of the
  concentrations.
\<close>

definition surviving :: "npfloat list \<Rightarrow> 'a list \<Rightarrow> real \<Rightarrow> 'a list" where
  "surviving sample_concs xs min_conc =
     map snd (filter (\<lambda>(c, x). \<not> fle c (Fin min_conc)) (zip sample_concs xs))"

section \<open>Text of numbers and well names\<close>

text \<open>
  Python strings are modelled by \<^typ>\<open>string\<close>, whose characters are the 256 code
  points below 256: \<^verbatim>\<open>chr(n)\<close> is \<open>char_of n\<close>, the same character for
  \<open>n < 256\<close>. The row letters of plates of up to 26 rows, A to Z, stay far below;
  the code points from 256 on, and the error that \<^verbatim>\<open>chr\<close> raises from \<open>0x110000\<close>
  on, are not modelled in the names of the pick lists.
\<close>

definition digit_char :: "nat \<Rightarrow> char" where
  "digit_char n = char_of (48 + n)"

text \<open>The decimal digits of a natural number, as \<^verbatim>\<open>"%d"\<close> and \<^verbatim>\<open>str\<close> print it.\<close>

fun show_nat :: "nat \<Rightarrow> string" where
  "show_nat n = (if n < 10 then [digit_char n] else show_nat (n div 10) @ [digit_char (n mod 10)])"

declare show_nat.simps [simp del]

definition show_int :: "int \<Rightarrow> string" where
  "show_int k = (if k < 0 then CHR ''-'' # show_nat (nat (- k)) else show_nat (nat k))"

text \<open>
  \<^verbatim>\<open>"%.2f" % x\<close>: the value rounded to two decimals, half to even on the exact value,
  with at least one digit before the point; the special values print as words.
\<close>

fun fmt2 :: "npfloat \<Rightarrow> string" where
  "fmt2 (Fin x) =
     (let n = nat (rint (\<bar>x\<bar> * 100))
      in (if x < 0 then ''-'' else '''') @ show_nat (n div 100) @ ''.''
           @ [digit_char (n div 10 mod 10), digit_char (n mod 10)])"
| "fmt2 PInf = ''inf''"
| "fmt2 NInf = ''-inf''"
| "fmt2 NaN = ''nan''"

text \<open>\<^verbatim>\<open>sep.join(xs)\<close>\<close>

fun join :: "string \<Rightarrow> string list \<Rightarrow> string" where
  "join sep [] = []"
| "join sep [x] = x"
| "join sep (x # y # ys) = x @ sep @ join sep (y # ys)"

text \<open>\<^verbatim>\<open>"%s%d" % (chr(ord('A') + i), j+1)\<close>, the name of the well in row \<open>i\<close> and
  column \<open>j\<close>, both counted from zero.\<close>

definition well_name :: "nat \<Rightarrow> nat \<Rightarrow> string" where
  "well_name i j = char_of (65 + i) # show_nat (j + 1)"

section \<open>The pooling pick list\<close>

text \<open>
  \<^verbatim>\<open>format_pooling_echo_pick_list(vol_sample, max_vol_per_well, dest_plate_shape)\<close>.
  The volume array is the list of its rows, all of one length. The loop carries the
  running total of the current destination well, the destination counter \<open>d\<close> and the
  lines written so far.
\<close>

record pick_state =
  running_tot :: npfloat
  d :: nat
  contents :: "string list"

definition pick_list_header :: string where
  "pick_list_header =
     ''Source Plate Name,Source Plate Type,Source Well,Concentration,Transfer Volume,Destination Plate Name,Destination Well''"

text \<open>\<^verbatim>\<open>"%s%d" % (chr(ord('A') + int(np.floor(d/dest_plate_shape[0]))),
  (d % dest_plate_shape[1]))\<close>\<close>

definition dest_name :: "nat \<times> nat \<Rightarrow> nat \<Rightarrow> string" where
  "dest_name dest_plate_shape k =
     char_of (65 + k div fst dest_plate_shape) # show_nat (k mod snd dest_plate_shape)"

definition pick_list_line :: "string \<Rightarrow> string \<Rightarrow> string \<Rightarrow> string" where
  "pick_list_line source_well val dest =
     join '','' [''1'', ''384LDV_AQ_B2_HT'', source_well, '''', val, ''NormalizedDNA'', dest]"

text \<open>The body of the inner loop, for the well in row \<open>i\<close> and column \<open>j\<close>.\<close>

definition pool_well ::
  "real \<Rightarrow> nat \<times> nat \<Rightarrow> npfloat list list \<Rightarrow> nat \<Rightarrow> pick_state \<Rightarrow> nat \<Rightarrow> pick_state" where
  "pool_well max_vol_per_well dest_plate_shape pool_vols i st j =
     (let val = fmt2 (pool_vols ! i ! j);
          st = (if flt (Fin max_vol_per_well) (fadd (running_tot st) (pool_vols ! i ! j))
                then st\<lparr>d := d st + 1, running_tot := pool_vols ! i ! j\<rparr>
                else st\<lparr>running_tot := fadd (running_tot st) (pool_vols ! i ! j)\<rparr>);
          dest = dest_name dest_plate_shape (d st)
      in st\<lparr>contents := contents st @ [pick_list_line (well_name i j) val dest]\<rparr>)"

definition array_cols :: "'a list list \<Rightarrow> nat" where
  "array_cols a = (case a of [] \<Rightarrow> 0 | r # _ \<Rightarrow> length r)"

definition pooling_loop :: "npfloat list list \<Rightarrow> real \<Rightarrow> nat \<times> nat \<Rightarrow> pick_state" where
  "pooling_loop vol_sample max_vol_per_well dest_plate_shape =
     (let rows = length vol_sample; cols = array_cols vol_sample;
          pool_vols = map (map nan_to_num) vol_sample
      in foldl (\<lambda>st i. foldl (pool_well max_vol_per_well dest_plate_shape pool_vols i) st [0..<cols])
           \<lparr>running_tot = Fin 0, d = 1, contents = [pick_list_header]\<rparr> [0..<rows])"



section \<open>Interleaved to contiguous wells\<close>

text \<open>
  \<^verbatim>\<open>reformat_interleaved_to_columns(wells)\<close> maps each well name of the array on its
  own. The helpers are the Python operations it uses: \<^verbatim>\<open>str.upper\<close> on one ASCII
  character, \<^verbatim>\<open>int\<close> of a string of decimal digits (\<^verbatim>\<open>ValueError\<close> otherwise;
  signs, white space and underscores, which \<^verbatim>\<open>int\<close> also reads, do not occur in well
  names and are not modelled), \<^verbatim>\<open>chr\<close> (\<^verbatim>\<open>ValueError\<close> outside the code points
  \<open>0\<close> to \<open>0x10FFFF\<close>), the
  remainder \<^verbatim>\<open>%\<close> of floats and the truncation of a float by \<^verbatim>\<open>int\<close>.
\<close>

definition py_upper :: "char \<Rightarrow> char" where
  "py_upper c =
     (let n = (of_char c :: nat) in if 97 \<le> n \<and> n \<le> 122 then char_of (n - 32) else c)"

definition is_digit :: "char \<Rightarrow> bool" where
  "is_digit c \<longleftrightarrow> 48 \<le> (of_char c :: nat) \<and> (of_char c :: nat) \<le> 57"

definition digits_value :: "string \<Rightarrow> nat" where
  "digits_value s = foldl (\<lambda>a c. 10 * a + (of_char c - 48)) 0 s"

definition py_int :: "string \<Rightarrow> error + int" where
  "py_int s =
     (if s = [] \<or> \<not> list_all is_digit s then Inl ValueError else Inr (int (digits_value s)))"

definition py_chr :: "int \<Rightarrow> error + char" where
  "py_chr n = (if n < 0 \<or> 1114111 < n then Inl ValueError else Inr (char_of (nat n)))"

definition py_fmod :: "real \<Rightarrow> real \<Rightarrow> real" where
  "py_fmod x m = x - m * of_int \<lfloor>x / m\<rfloor>"

definition py_trunc :: "real \<Rightarrow> int" where
  "py_trunc x = (if 0 \<le> x then \<lfloor>x\<rfloor> else \<lceil>x\<rceil>)"

definition reformat_well :: "string \<Rightarrow> error + string" where
  "reformat_well owell =
     (case owell of
        [] \<Rightarrow> Inl IndexError
      | c # rest \<Rightarrow>
          (case py_int rest of
             Inl e \<Rightarrow> Inl e
           | Inr n \<Rightarrow>
               (let row = int (of_char (py_upper c)) - 65;
                    col = n - 1;
                    roffset = row mod 2;
                    nrow = py_trunc (of_int (row - roffset) + of_int \<lfloor>(of_int col :: real) / 12\<rfloor>);
                    coffset = col mod 2 + (row mod 2) * 2;
                    ncol = py_trunc (of_int (coffset * 6) + py_fmod (of_int col / 2) 6)
                in case py_chr (nrow + 65) of
                     Inl e \<Rightarrow> Inl e
                   | Inr ch \<Rightarrow> Inr (ch # show_int (ncol + 1)))))"

fun reformat_interleaved_to_columns :: "string list \<Rightarrow> error + string list" where
  "reformat_interleaved_to_columns [] = Inr []"
| "reformat_interleaved_to_columns (owell # wells) =
     (case reformat_well owell of
        Inl e \<Rightarrow> Inl e
      | Inr nwell \<Rightarrow>
          (case reformat_interleaved_to_columns wells of
             Inl e \<Rightarrow> Inl e
           | Inr new_wells \<Rightarrow> Inr (nwell # new_wells)))"




section \<open>The normalization pick list\<close>

text \<open>
  \<^verbatim>\<open>format_dna_norm_picklist\<close> on one-dimensional arrays: an array is the list of its
  elements and its shape is its length. \<^verbatim>\<open>str\<close> of a float is a parameter
  \<open>str_float\<close> of the model. A plate argument is either one string, which the function
  spreads over the shape of \<^verbatim>\<open>dna_vols\<close>, or an array of strings.
\<close>

datatype plate_arg = PlateStr string | PlateArr "string list"

definition norm_picklist_header :: string where
  "norm_picklist_header =
     join [CHR 0x09] [''Sample'', ''Source Plate Name'', ''Source Plate Type'', ''Source Well'',
       ''Concentration'', ''Transfer Volume'', ''Destination Plate Name'', ''Destination Well'']"

definition spread_plate :: "plate_arg \<Rightarrow> nat \<Rightarrow> string list" where
  "spread_plate p n = (case p of PlateStr s \<Rightarrow> replicate n s | PlateArr a \<Rightarrow> a)"

text \<open>A chain \<^verbatim>\<open>a != b != c\<close> of Python is \<^verbatim>\<open>a != b and b != c\<close>.\<close>

fun chained_ne :: "nat list \<Rightarrow> bool" where
  "chained_ne (a # b # rest) = (a \<noteq> b \<and> chained_ne (b # rest))"
| "chained_ne _ = True"

text \<open>Indexing an array: \<^verbatim>\<open>IndexError\<close> out of bounds.\<close>

definition index_array :: "'a list \<Rightarrow> nat \<Rightarrow> error + 'a" where
  "index_array a i = (if i < length a then Inr (a ! i) else Inl IndexError)"

text \<open>The results of a loop body over a list; the first error ends the loop.\<close>

fun collect :: "(error + 'a) list \<Rightarrow> error + 'a list" where
  "collect [] = Inr []"
| "collect (Inl e # rs) = Inl e"
| "collect (Inr x # rs) = (case collect rs of Inl e \<Rightarrow> Inl e | Inr xs \<Rightarrow> Inr (x # xs))"

text \<open>One line of the pick list: the fields that are read from arrays at the index come
  first, in the order of the source, and an index out of bounds raises.\<close>

definition norm_picklist_row ::
  "(npfloat \<Rightarrow> string) \<Rightarrow> string \<Rightarrow> string list \<Rightarrow> string list \<Rightarrow> string list
     \<Rightarrow> npfloat list \<Rightarrow> npfloat list \<Rightarrow> string \<Rightarrow> string list \<Rightarrow> nat \<Rightarrow> error + string" where
  "norm_picklist_row str_float sample plate_names plate_types wells dna_concs vols
       dest_plate_name dest_wells i =
     (case index_array plate_names i of Inl e \<Rightarrow> Inl e | Inr plate_name \<Rightarrow>
      case index_array plate_types i of Inl e \<Rightarrow> Inl e | Inr plate_type \<Rightarrow>
      case index_array wells i of Inl e \<Rightarrow> Inl e | Inr well \<Rightarrow>
      case index_array dna_concs i of Inl e \<Rightarrow> Inl e | Inr conc \<Rightarrow>
      case index_array vols i of Inl e \<Rightarrow> Inl e | Inr vol \<Rightarrow>
      case index_array dest_wells i of Inl e \<Rightarrow> Inl e | Inr dest_well \<Rightarrow>
        Inr (join [CHR 0x09] [sample, plate_name, plate_type, well, str_float conc,
               str_float vol, dest_plate_name, dest_well]))"

definition format_dna_norm_picklist ::
  "(npfloat \<Rightarrow> string) \<Rightarrow> npfloat list \<Rightarrow> npfloat list \<Rightarrow> string list \<Rightarrow> string list option
     \<Rightarrow> npfloat list option \<Rightarrow> string list option \<Rightarrow> plate_arg option \<Rightarrow> string
     \<Rightarrow> plate_arg option \<Rightarrow> string \<Rightarrow> string \<Rightarrow> error + string" where
  "format_dna_norm_picklist str_float dna_vols water_vols wells dest_wells dna_concs sample_names
       sample_plates water_plate_name dna_plate_type water_plate_type dest_plate_name =
     (if chained_ne [length dna_vols, length wells, length water_vols] then Inl ValueError
      else
        (let dest_wells = (case dest_wells of None \<Rightarrow> wells | Some a \<Rightarrow> a);
             sample_names = (case sample_names of
                 None \<Rightarrow> replicate (length dna_vols) (str_float NaN) | Some a \<Rightarrow> a);
             sample_plates = (case sample_plates of None \<Rightarrow> PlateStr ''Sample'' | Some p \<Rightarrow> p);
             sample_plates = spread_plate sample_plates (length dna_vols);
             dna_plate_type = (case dna_plate_type of
                 None \<Rightarrow> PlateStr ''384PP_AQ_BP2_HT'' | Some p \<Rightarrow> p);
             dna_plate_type = spread_plate dna_plate_type (length dna_vols);
             dna_concs = (case dna_concs of
                 None \<Rightarrow> replicate (length dna_vols) NaN | Some a \<Rightarrow> a)
         in if chained_ne [length dna_concs, length sample_names, length dna_vols,
                           length sample_plates, length dna_plate_type]
            then Inl ValueError
            else
              (let n = length sample_names;
                   water = collect (map (\<lambda>i. norm_picklist_row str_float (sample_names ! i)
                             (replicate n water_plate_name) (replicate n water_plate_type)
                             wells dna_concs water_vols dest_plate_name dest_wells i) [0..<n]);
                   dna = collect (map (\<lambda>i. norm_picklist_row str_float (sample_names ! i)
                             sample_plates dna_plate_type
                             wells dna_concs dna_vols dest_plate_name dest_wells i) [0..<n])
               in case water of Inl e \<Rightarrow> Inl e | Inr water_rows \<Rightarrow>
                  case dna of Inl e \<Rightarrow> Inl e | Inr dna_rows \<Rightarrow>
                    Inr (join [CHR 0x0A] (norm_picklist_header # water_rows @ dna_rows)))))"

section \<open>Properties of rounding and arithmetic\<close>



lemma rint_of_int: "rint (of_int k) = k"
  unfolding rint_def Let_def by simp

lemma rint_mono: "x \<le> y \<Longrightarrow> rint x \<le> rint y"
proof -
  assume xy: "x \<le> y"
  have fl: "\<lfloor>x\<rfloor> \<le> \<lfloor>y\<rfloor>" using xy by (rule floor_mono)
  show ?thesis
  proof (cases "\<lfloor>x\<rfloor> = \<lfloor>y\<rfloor>")
    case True
    then show ?thesis using xy unfolding rint_def Let_def by (auto split: if_splits)
  next
    case False
    then have "\<lfloor>x\<rfloor> + 1 \<le> \<lfloor>y\<rfloor>" using fl by linarith
    moreover have "rint x \<le> \<lfloor>x\<rfloor> + 1" unfolding rint_def Let_def by auto
    moreover have "\<lfloor>y\<rfloor> \<le> rint y" unfolding rint_def Let_def by auto
    ultimately show ?thesis by linarith
  qed
qed

section \<open>Properties of the normalized volumes\<close>

lemma raw_volume_not_NaN:
  assumes "ng \<noteq> 0"
  shows "fmul (fdiv (Fin ng) (nan_to_num c)) (Fin 1000) \<noteq> NaN"
  using assms by (cases c) (auto simp: inf_of_sign_def)

lemma raw_volume_of_NaN:
  assumes "0 < ng"
  shows "fmul (fdiv (Fin ng) (nan_to_num NaN)) (Fin 1000) = PInf"
  using assms by (simp add: inf_of_sign_def)

lemma clip_finite:
  assumes "v \<noteq> NaN" and "lo \<le> hi"
  shows "\<exists>w. clip v (Fin lo) (Fin hi) = Fin w \<and> lo \<le> w \<and> w \<le> hi"
  using assms by (cases v) (auto simp: clip_def fmin_def fmax_def)

lemma clip_PInf: "clip PInf (Fin lo) (Fin hi) = Fin hi"
  by (simp add: clip_def fmin_def fmax_def)

lemma snap_finite:
  assumes "resolution \<noteq> 0"
  shows "snap_to_resolution resolution (Fin w)
           = Fin (of_int (rint (w / resolution)) * resolution)"
  using assms by (simp add: snap_to_resolution_def)

text \<open>Between two multiples of the resolution, the snapped value stays between them:
  rounding is monotone and fixes the integers.\<close>

lemma snap_bounds:
  assumes r: "resolution \<noteq> 0" and lo: "lo = of_int a * resolution"
    and hi: "hi = of_int b * resolution" and w: "lo \<le> w" "w \<le> hi"
  shows "lo \<le> of_int (rint (w / resolution)) * resolution
       \<and> of_int (rint (w / resolution)) * resolution \<le> hi"
proof (cases "0 < resolution")
  case True
  have "of_int a \<le> w / resolution" using True lo w(1) by (simp add: pos_le_divide_eq)
  then have 1: "a \<le> rint (w / resolution)" using rint_mono rint_of_int by metis
  have "w / resolution \<le> of_int b" using True hi w(2) by (simp add: pos_divide_le_eq)
  then have 2: "rint (w / resolution) \<le> b" using rint_mono rint_of_int by metis
  from 1 2 True show ?thesis by (simp add: lo hi)
next
  case False
  then have neg: "resolution < 0" using r by simp
  have "w / resolution \<le> of_int a" using neg lo w(1) by (simp add: neg_divide_le_eq)
  then have 1: "rint (w / resolution) \<le> a" using rint_mono rint_of_int by metis
  have "of_int b \<le> w / resolution" using neg hi w(2) by (simp add: neg_le_divide_eq)
  then have 2: "b \<le> rint (w / resolution)" using rint_mono rint_of_int by metis
  from 1 2 neg show ?thesis by (simp add: lo hi)
qed

lemma snap_of_multiple:
  assumes "resolution \<noteq> 0"
  shows "snap_to_resolution resolution (Fin (of_int b * resolution))
           = Fin (of_int b * resolution)"
  using assms by (simp add: snap_to_resolution_def rint_of_int)

lemma calculate_norm_vol_nth:
  assumes "i < length dna_concs"
  shows "calculate_norm_vol dna_concs ng min_vol max_vol resolution ! i =
     snap_to_resolution resolution
       (clip (fmul (fdiv (Fin ng) (nan_to_num (dna_concs ! i))) (Fin 1000))
          (Fin min_vol) (Fin max_vol))"
  using assms by (simp add: calculate_norm_vol_def)

text \<open>
  Claim C1, as the code has it. The volume is clipped first and snapped to the
  resolution afterwards, so the result is a multiple of the resolution, and it stays
  within the bounds when the bounds are themselves multiples of the resolution (as the
  defaults 2.5, 3500 and 2.5 are). For a resolution other than zero, bounds
  \<open>min_vol \<le> max_vol\<close> that are integer multiples of it and a mass \<open>ng\<close> other than
  zero: the output has the length of the input, every element is an integer multiple of
  the resolution within \<open>[min_vol, max_vol]\<close>, and for a positive mass a NaN
  concentration gives exactly \<open>max_vol\<close>; no error is raised.
\<close>

theorem calculate_norm_vol_range:
  assumes r: "resolution \<noteq> 0" and le: "min_vol \<le> max_vol"
    and lo: "min_vol = of_int a * resolution" and hi: "max_vol = of_int b * resolution"
    and ng: "ng \<noteq> 0"
  shows "length (calculate_norm_vol dna_concs ng min_vol max_vol resolution) = length dna_concs
    \<and> (\<forall>i < length dna_concs.
          (\<exists>k::int. calculate_norm_vol dna_concs ng min_vol max_vol resolution ! i
                      = Fin (of_int k * resolution)
              \<and> min_vol \<le> of_int k * resolution \<and> of_int k * resolution \<le> max_vol)
        \<and> (0 < ng \<and> dna_concs ! i = NaN \<longrightarrow>
              calculate_norm_vol dna_concs ng min_vol max_vol resolution ! i = Fin max_vol))"
proof (intro conjI allI impI)
  show "length (calculate_norm_vol dna_concs ng min_vol max_vol resolution) = length dna_concs"
    by (simp add: calculate_norm_vol_def)
next
  fix i assume i: "i < length dna_concs"
  let ?v = "fmul (fdiv (Fin ng) (nan_to_num (dna_concs ! i))) (Fin 1000)"
  obtain w where w: "clip ?v (Fin min_vol) (Fin max_vol) = Fin w" "min_vol \<le> w" "w \<le> max_vol"
    using clip_finite [OF raw_volume_not_NaN [OF ng] le] by blast
  have "calculate_norm_vol dna_concs ng min_vol max_vol resolution ! i
          = Fin (of_int (rint (w / resolution)) * resolution)"
    by (simp add: calculate_norm_vol_nth [OF i] w(1) snap_finite [OF r])
  with snap_bounds [OF r lo hi w(2,3)]
  show "\<exists>k::int. calculate_norm_vol dna_concs ng min_vol max_vol resolution ! i
                      = Fin (of_int k * resolution)
              \<and> min_vol \<le> of_int k * resolution \<and> of_int k * resolution \<le> max_vol"
    by blast
next
  fix i assume i: "i < length dna_concs" and c: "0 < ng \<and> dna_concs ! i = NaN"
  then have "fmul (fdiv (Fin ng) (nan_to_num (dna_concs ! i))) (Fin 1000) = PInf"
    using raw_volume_of_NaN [of ng] by simp
  then show "calculate_norm_vol dna_concs ng min_vol max_vol resolution ! i = Fin max_vol"
    using snap_of_multiple [OF r, of b]
    by (simp add: calculate_norm_vol_nth [OF i] clip_PInf hi)
qed

text \<open>The default parameters on a concentration of 2 ng/\<mu>L and a missing one.\<close>

theorem calculate_norm_vol_range_witness:
  "(5/2::real) \<noteq> 0 \<and> (5/2::real) \<le> 3500 \<and> (5/2::real) = of_int 1 * (5/2)
    \<and> (3500::real) = of_int 1400 * (5/2) \<and> (5::real) \<noteq> 0
    \<and> length (calculate_norm_vol [Fin 2, NaN] 5 (5/2) 3500 (5/2)) = 2
    \<and> calculate_norm_vol [Fin 2, NaN] 5 (5/2) 3500 (5/2) ! 1 = Fin 3500"
proof -
  have r: "(5/2::real) \<noteq> 0" by simp
  have le: "(5/2::real) \<le> 3500" by simp
  have lo: "(5/2::real) = of_int 1 * (5/2)" by simp
  have hi: "(3500::real) = of_int 1400 * (5/2)" by simp
  have ng: "(5::real) \<noteq> 0" by simp
  note t = calculate_norm_vol_range [OF r le lo hi ng, of "[Fin 2, NaN]"]
  from t have len: "length (calculate_norm_vol [Fin 2, NaN] 5 (5/2) 3500 (5/2)) = 2"
    by simp
  from t have "(0 < (5::real) \<and> [Fin 2, NaN] ! 1 = NaN \<longrightarrow>
              calculate_norm_vol [Fin 2, NaN] 5 (5/2) 3500 (5/2) ! 1 = Fin 3500)"
    by fastforce
  then have el: "calculate_norm_vol [Fin 2, NaN] 5 (5/2) 3500 (5/2) ! 1 = Fin 3500"
    by simp
  from r le lo hi ng len el show ?thesis by blast
qed

text \<open>
  Claim C1 as stated fails for bounds that are not multiples of the resolution. With
  \<open>ng = 1\<close>, a concentration of 1024, \<open>min_vol = 1\<close>, \<open>max_vol = 3500\<close> and
  \<open>resolution = 4\<close> the volume \<open>1 / 1024 * 1000 = 0.9765625\<close> is clipped to 1, and
  \<open>round (1 / 4) * 4 = 0\<close> lies below \<open>min_vol\<close>.
\<close>

theorem calculate_norm_vol_range_counterexample:
  "calculate_norm_vol [Fin 1024] 1 1 3500 4 = [Fin 0] \<and> \<not> fle (Fin 1) (Fin 0)"
  by (simp add: calculate_norm_vol_def snap_to_resolution_def clip_def fmin_def fmax_def
      rint_def Let_def fle_def)






section \<open>Properties of the pooling policies\<close>

lemma length_fracs_or_default_None [simp]:
  "length (fracs_or_default None sample_concs) = length sample_concs"
  by (simp add: fracs_or_default_def default_fracs_def)

lemma mask_assign_Inr:
  assumes "length msk = length a"
  shows "mask_assign a msk v = Inr (map (\<lambda>(x, m). if m then v else x) (zip a msk))"
  using assms by (simp add: mask_assign_def)

lemma sample_fracs_pass_Inr:
  assumes "length fracs = length concs"
  shows "sample_fracs_pass concs fracs min_conc
     = Inr (map (\<lambda>(w, c). if fle c (Fin min_conc) then Fin 0 else w) (zip fracs concs))"
  using assms
  by (simp add: sample_fracs_pass_def mask_assign_def zip_map2 case_prod_beta)

lemma sample_concs_floor_Inr:
  "sample_concs_floor concs floor_conc
     = Inr (map (\<lambda>c. if flt c (Fin floor_conc) then Fin floor_conc else c) concs)"
  by (simp add: sample_concs_floor_def mask_assign_def zip_map2 case_prod_beta zip_same_conv_map)

lemma broadcast2_same:
  assumes "length xs = length ys"
  shows "broadcast2 f xs ys = Inr (map (\<lambda>(x, y). f x y) (zip xs ys))"
  using assms by (simp add: broadcast2_def)

lemma length_renormalize [simp]: "length (renormalize ps) = length ps"
  by (simp add: renormalize_def Let_def)

lemma renormalize_nth:
  "i < length ps \<Longrightarrow> renormalize ps ! i = fmul (ps ! i) (fdiv (Fin 1) (np_sum ps))"
  by (simp add: renormalize_def Let_def)

text \<open>The function on arrays of one shape, element by element.\<close>

lemma qpcr_Inr:
  assumes len: "length (fracs_or_default sample_fracs concs) = length concs"
  shows "compute_shotgun_pooling_values_qpcr concs sample_fracs min_conc floor_conc total_nmol
    = Inr (map (\<lambda>i. fmul (fdiv (fmul (Fin total_nmol)
               (renormalize (map (\<lambda>(w, c). if fle c (Fin min_conc) then Fin 0 else w)
                                 (zip (fracs_or_default sample_fracs concs) concs)) ! i))
               (if flt (concs ! i) (Fin floor_conc) then Fin floor_conc else concs ! i))
             (Fin (10 ^ 9))) [0..<length concs])"
  using len
  by (auto simp: compute_shotgun_pooling_values_qpcr_def Let_def sample_fracs_pass_Inr
      sample_concs_floor_Inr broadcast2_same intro!: nth_equalityI)



lemma pass_nth:
  assumes "length fracs = length concs" and "i < length concs"
  shows "map (\<lambda>(w, c). if fle c (Fin min_conc) then Fin 0 else w) (zip fracs concs) ! i
           = (if fle (concs ! i) (Fin min_conc) then Fin 0 else fracs ! i)"
  using assms by simp

lemma fmul_zero_or_NaN:
  assumes "x = Fin 0 \<or> x = NaN"
  shows "fmul x y = Fin 0 \<or> fmul x y = NaN" and "fmul y x = Fin 0 \<or> fmul y x = NaN"
  using assms by (cases y; auto simp: inf_of_sign_def)+

lemma fdiv_zero_or_NaN:
  assumes "x = Fin 0 \<or> x = NaN"
  shows "fdiv x y = Fin 0 \<or> fdiv x y = NaN"
  using assms by (cases y) (auto simp: inf_of_sign_def)

text \<open>
  Claim C2, as the code has it. Exclusion is driven by less-than-or-equal: the weight of
  a sample is set to zero exactly when its concentration is at or below
  \<^verbatim>\<open>min_conc\<close>, so a sample at exactly \<^verbatim>\<open>min_conc\<close> is excluded, and its volume is
  zero (or NaN when the renormalization is undefined), never positive. Flooring is
  driven by strictly-less-than: a sample at exactly \<^verbatim>\<open>floor_conc\<close> is pooled at its
  own concentration.
\<close>

theorem exclusion_at_threshold:
  assumes len: "length (fracs_or_default sample_fracs sample_concs) = length sample_concs"
  shows "\<exists>fracs_pass concs_floor sample_vols.
      sample_fracs_pass sample_concs (fracs_or_default sample_fracs sample_concs) min_conc
        = Inr fracs_pass
    \<and> sample_concs_floor sample_concs floor_conc = Inr concs_floor
    \<and> compute_shotgun_pooling_values_qpcr sample_concs sample_fracs min_conc floor_conc
          total_nmol = Inr sample_vols
    \<and> length sample_vols = length sample_concs
    \<and> (\<forall>i < length sample_concs.
          fracs_pass ! i = (if fle (sample_concs ! i) (Fin min_conc) then Fin 0
                            else fracs_or_default sample_fracs sample_concs ! i)
        \<and> concs_floor ! i = (if flt (sample_concs ! i) (Fin floor_conc) then Fin floor_conc
                              else sample_concs ! i)
        \<and> sample_vols ! i = fmul (fdiv (fmul (Fin total_nmol) (renormalize fracs_pass ! i))
                                     (concs_floor ! i)) (Fin (10 ^ 9))
        \<and> (sample_concs ! i = Fin min_conc \<longrightarrow>
              fracs_pass ! i = Fin 0 \<and> (sample_vols ! i = Fin 0 \<or> sample_vols ! i = NaN))
        \<and> (sample_concs ! i = Fin floor_conc \<longrightarrow> concs_floor ! i = sample_concs ! i))"
proof -
  let ?fr = "fracs_or_default sample_fracs sample_concs"
  let ?pass = "map (\<lambda>(w, c). if fle c (Fin min_conc) then Fin 0 else w) (zip ?fr sample_concs)"
  let ?cf = "map (\<lambda>c. if flt c (Fin floor_conc) then Fin floor_conc else c) sample_concs"
  let ?vols = "map (\<lambda>i. fmul (fdiv (fmul (Fin total_nmol) (renormalize ?pass ! i))
               (if flt (sample_concs ! i) (Fin floor_conc) then Fin floor_conc
                else sample_concs ! i))
             (Fin (10 ^ 9))) [0..<length sample_concs]"
  have 1: "sample_fracs_pass sample_concs ?fr min_conc = Inr ?pass"
    by (rule sample_fracs_pass_Inr [OF len])
  have 2: "sample_concs_floor sample_concs floor_conc = Inr ?cf"
    by (rule sample_concs_floor_Inr)
  have 3: "compute_shotgun_pooling_values_qpcr sample_concs sample_fracs min_conc floor_conc
          total_nmol = Inr ?vols"
    by (rule qpcr_Inr [OF len])
  have 4: "length ?vols = length sample_concs" by simp
  have 5: "fracs_pass_i = (if fle (sample_concs ! i) (Fin min_conc) then Fin 0 else ?fr ! i)
        \<and> ?cf ! i = (if flt (sample_concs ! i) (Fin floor_conc) then Fin floor_conc
                              else sample_concs ! i)
        \<and> ?vols ! i = fmul (fdiv (fmul (Fin total_nmol) (renormalize ?pass ! i))
                                     (?cf ! i)) (Fin (10 ^ 9))
        \<and> (sample_concs ! i = Fin min_conc \<longrightarrow>
              fracs_pass_i = Fin 0 \<and> (?vols ! i = Fin 0 \<or> ?vols ! i = NaN))
        \<and> (sample_concs ! i = Fin floor_conc \<longrightarrow> ?cf ! i = sample_concs ! i)"
    if i: "i < length sample_concs" and fp: "fracs_pass_i = ?pass ! i" for i fracs_pass_i
  proof (intro conjI impI)
    show p: "fracs_pass_i = (if fle (sample_concs ! i) (Fin min_conc) then Fin 0 else ?fr ! i)"
      using pass_nth [OF len i] fp by simp
    show "?cf ! i = (if flt (sample_concs ! i) (Fin floor_conc) then Fin floor_conc
                              else sample_concs ! i)"
      using i by simp
    show v: "?vols ! i = fmul (fdiv (fmul (Fin total_nmol) (renormalize ?pass ! i))
                                     (?cf ! i)) (Fin (10 ^ 9))"
      using i by simp
    show "sample_concs ! i = Fin floor_conc \<Longrightarrow> ?cf ! i = sample_concs ! i"
      using i by simp
    assume m: "sample_concs ! i = Fin min_conc"
    then show z: "fracs_pass_i = Fin 0" using p by (simp add: fle_def)
    have "renormalize ?pass ! i = fmul (Fin 0) (fdiv (Fin 1) (np_sum ?pass))"
      using renormalize_nth [of i ?pass] i len z fp by simp
    then have "renormalize ?pass ! i = Fin 0 \<or> renormalize ?pass ! i = NaN"
      using fmul_zero_or_NaN(1) [of "Fin 0"] by simp
    then have "fmul (Fin total_nmol) (renormalize ?pass ! i) = Fin 0
        \<or> fmul (Fin total_nmol) (renormalize ?pass ! i) = NaN"
      by (rule fmul_zero_or_NaN(2))
    then have "fdiv (fmul (Fin total_nmol) (renormalize ?pass ! i)) (?cf ! i) = Fin 0
        \<or> fdiv (fmul (Fin total_nmol) (renormalize ?pass ! i)) (?cf ! i) = NaN"
      by (rule fdiv_zero_or_NaN)
    then have "fmul (fdiv (fmul (Fin total_nmol) (renormalize ?pass ! i)) (?cf ! i)) (Fin (10 ^ 9)) = Fin 0
        \<or> fmul (fdiv (fmul (Fin total_nmol) (renormalize ?pass ! i)) (?cf ! i)) (Fin (10 ^ 9)) = NaN"
      by (rule fmul_zero_or_NaN(1))
    then show "?vols ! i = Fin 0 \<or> ?vols ! i = NaN" unfolding v .
  qed
  from 1 2 3 4 5 show ?thesis by blast
qed

lemma np_sum_zeros: "foldl fadd (Fin 0) (replicate n (Fin 0)) = Fin 0"
  by (induction n) simp_all

lemma all_excluded_pass:
  assumes "length fracs = length concs" and "\<forall>c \<in> set concs. fle c (Fin min_conc)"
  shows "map (\<lambda>(w, c). if fle c (Fin min_conc) then Fin 0 else w) (zip fracs concs)
           = replicate (length concs) (Fin 0)"
  using assms by (auto intro!: nth_equalityI)

text \<open>
  Claim C3, as the code has it. When every sample is at or below \<^verbatim>\<open>min_conc\<close> the
  sum of the weights is zero, its reciprocal is infinite, and zero times infinity is
  NaN: the call raises no error and returns NaN for every sample.
\<close>

theorem all_excluded_gives_NaN:
  assumes len: "length (fracs_or_default sample_fracs sample_concs) = length sample_concs"
    and ex: "\<forall>c \<in> set sample_concs. fle c (Fin min_conc)"
  shows "compute_shotgun_pooling_values_qpcr sample_concs sample_fracs min_conc floor_conc
           total_nmol = Inr (replicate (length sample_concs) NaN)"
proof -
  have "renormalize (replicate (length sample_concs) (Fin 0)) ! i = NaN"
    if "i < length sample_concs" for i
    using that by (simp add: renormalize_nth np_sum_def np_sum_zeros inf_of_sign_def)
  then show ?thesis
    by (auto simp: qpcr_Inr [OF len] all_excluded_pass [OF len ex] intro!: nth_equalityI)
qed

lemma foldl_fadd_Fin: "foldl fadd (Fin a) (map Fin xs) = Fin (a + sum_list xs)"
  by (induction xs arbitrary: a) (simp_all add: add.assoc)

lemma np_sum_Fin: "np_sum (map Fin xs) = Fin (sum_list xs)"
  by (simp add: np_sum_def foldl_fadd_Fin)

lemma pass_Fin:
  assumes "length ws = length concs"
  shows "map (\<lambda>(w, c). if fle c (Fin min_conc) then Fin 0 else w) (zip (map Fin ws) concs)
       = map Fin (map (\<lambda>(w, c). if fle c (Fin min_conc) then 0 else w) (zip ws concs))"
  using assms by (auto intro!: nth_equalityI)

lemma sum_pass:
  assumes "length ws = length concs"
  shows "sum_list (map (\<lambda>(w, c). if fle c (Fin min_conc) then 0 else w) (zip ws concs))
       = sum_list (surviving concs ws min_conc)"
  using assms by (induction ws concs rule: list_induct2) (simp_all add: surviving_def)

lemma renormalize_Fin:
  assumes "sum_list ps \<noteq> 0"
  shows "renormalize (map Fin ps) = map Fin (map (\<lambda>p. p * (1 / sum_list ps)) ps)"
  using assms by (simp add: renormalize_def np_sum_Fin)

lemma surviving_Fin:
  "surviving concs (map Fin xs) min_conc = map Fin (surviving concs xs min_conc)"
proof (induction concs arbitrary: xs)
  case Nil
  then show ?case by (simp add: surviving_def)
next
  case (Cons c concs)
  then show ?case by (cases xs) (simp_all add: surviving_def)
qed

lemma sum_surviving_scaled:
  assumes "length ws = length concs"
  shows "sum_list (surviving concs
            (map (\<lambda>p. p * r) (map (\<lambda>(w, c). if fle c (Fin min_conc) then 0 else w) (zip ws concs)))
            min_conc)
       = sum_list (surviving concs ws min_conc) * (r::real)"
  using assms
  by (induction ws concs rule: list_induct2) (simp_all add: surviving_def algebra_simps)

lemma floored_conc_positive:
  assumes "0 < floor_conc" and "fle c (Fin min_conc)"
  shows "fdiv (Fin 0) (if flt c (Fin floor_conc) then Fin floor_conc else c) = Fin 0"
  using assms by (cases c) (auto simp: fle_def)

text \<open>
  Claim C4, as the code has it. For finite weights whose sum over the surviving samples
  is not zero, the renormalized weights of the surviving samples sum to one; and with a
  positive \<^verbatim>\<open>floor_conc\<close> every sample at or below \<^verbatim>\<open>min_conc\<close> receives the
  volume zero.
\<close>

theorem renormalized_weights_sum_to_one:
  assumes len: "length ws = length sample_concs"
    and nz: "sum_list (surviving sample_concs ws min_conc) \<noteq> 0"
  shows "\<exists>fracs_pass sample_vols.
      sample_fracs_pass sample_concs (map Fin ws) min_conc = Inr fracs_pass
    \<and> np_sum (surviving sample_concs (renormalize fracs_pass) min_conc) = Fin 1
    \<and> compute_shotgun_pooling_values_qpcr sample_concs (Some (map Fin ws)) min_conc floor_conc
          total_nmol = Inr sample_vols
    \<and> length sample_vols = length sample_concs
    \<and> (0 < floor_conc \<longrightarrow>
         (\<forall>i < length sample_concs.
            fle (sample_concs ! i) (Fin min_conc) \<longrightarrow> sample_vols ! i = Fin 0))"
proof -
  let ?ps = "map (\<lambda>(w, c). if fle c (Fin min_conc) then 0 else w) (zip ws sample_concs)"
  let ?S = "sum_list (surviving sample_concs ws min_conc)"
  let ?vols = "map (\<lambda>i. fmul (fdiv (fmul (Fin total_nmol) (renormalize (map Fin ?ps) ! i))
               (if flt (sample_concs ! i) (Fin floor_conc) then Fin floor_conc
                else sample_concs ! i))
             (Fin (10 ^ 9))) [0..<length sample_concs]"
  have len': "length (fracs_or_default (Some (map Fin ws)) sample_concs) = length sample_concs"
    using len by (simp add: fracs_or_default_def)
  have S: "sum_list ?ps = ?S" by (rule sum_pass [OF len])
  have 1: "sample_fracs_pass sample_concs (map Fin ws) min_conc = Inr (map Fin ?ps)"
    using len by (simp add: sample_fracs_pass_Inr pass_Fin)
  have rn: "renormalize (map Fin ?ps) = map Fin (map (\<lambda>p. p * (1 / ?S)) ?ps)"
    using renormalize_Fin [of ?ps] nz S by simp
  have "surviving sample_concs (renormalize (map Fin ?ps)) min_conc
          = map Fin (surviving sample_concs (map (\<lambda>p. p * (1 / ?S)) ?ps) min_conc)"
    unfolding rn by (rule surviving_Fin)
  then have "np_sum (surviving sample_concs (renormalize (map Fin ?ps)) min_conc)
          = Fin (sum_list (surviving sample_concs (map (\<lambda>p. p * (1 / ?S)) ?ps) min_conc))"
    by (simp only: np_sum_Fin)
  also have "\<dots> = Fin (?S * (1 / ?S))"
    by (simp only: sum_surviving_scaled [OF len])
  also have "\<dots> = Fin 1" using nz by simp
  finally have 2: "np_sum (surviving sample_concs (renormalize (map Fin ?ps)) min_conc) = Fin 1" .
  have 3: "compute_shotgun_pooling_values_qpcr sample_concs (Some (map Fin ws)) min_conc
             floor_conc total_nmol = Inr ?vols"
    using qpcr_Inr [OF len'] len by (simp add: fracs_or_default_def pass_Fin)
  have 4: "length ?vols = length sample_concs" by simp
  have 5: "?vols ! i = Fin 0"
    if pos: "0 < floor_conc" and i: "i < length sample_concs"
      and ex: "fle (sample_concs ! i) (Fin min_conc)" for i
  proof -
    define cf where "cf = (if flt (sample_concs ! i) (Fin floor_conc) then Fin floor_conc
                else sample_concs ! i)"
    define rn_i where "rn_i = renormalize (map Fin ?ps) ! i"
    have "?vols ! i = fmul (fdiv (fmul (Fin total_nmol) rn_i) cf) (Fin (10 ^ 9))"
      using i by (simp add: cf_def rn_i_def)
    moreover have "rn_i = Fin 0"
      unfolding rn_i_def rn using i len ex by simp
    moreover have "fdiv (Fin 0) cf = Fin 0"
      unfolding cf_def by (rule floored_conc_positive [OF pos ex])
    ultimately show ?thesis by simp
  qed
  from 1 2 3 4 5 show ?thesis by blast
qed

lemmas pooling_evals = compute_shotgun_pooling_values_qpcr_def compute_shotgun_pooling_values_qpcr_minvol_def
  fracs_or_default_def default_fracs_def sample_fracs_pass_def renormalize_def sample_concs_floor_def
  mask_assign_def broadcast2_def np_sum_def fle_def inf_of_sign_def Let_def surviving_def


text \<open>
  Claim C2 as stated fails at \<^verbatim>\<open>min_conc\<close>: of two samples at 10 nM and 100 nM with
  the defaults \<^verbatim>\<open>min_conc = 10\<close>, \<^verbatim>\<open>floor_conc = 50\<close>, the first has the
  renormalized weight zero and the volume zero.
\<close>

theorem exclusion_at_threshold_counterexample:
  "sample_fracs_pass [Fin 10, Fin 100] (fracs_or_default None [Fin 10, Fin 100]) 10
      = Inr [Fin 0, Fin (1/2)]
   \<and> renormalize [Fin 0, Fin (1/2)] = [Fin 0, Fin 1]
   \<and> compute_shotgun_pooling_values_qpcr [Fin 10, Fin 100] None 10 50 (1/100)
      = Inr [Fin 0, Fin 100000]"
  by (simp add: pooling_evals)

theorem exclusion_at_threshold_witness:
  "length (fracs_or_default None [Fin 10, Fin 50, Fin 100]) = length [Fin 10, Fin 50, Fin 100]
   \<and> [Fin 10, Fin 50, Fin 100] ! 0 = Fin 10 \<and> [Fin 10, Fin 50, Fin 100] ! 1 = Fin 50
   \<and> sample_fracs_pass [Fin 10, Fin 50, Fin 100] (fracs_or_default None [Fin 10, Fin 50, Fin 100]) 10
        = Inr [Fin 0, Fin (1/3), Fin (1/3)]
   \<and> sample_concs_floor [Fin 10, Fin 50, Fin 100] 50 = Inr [Fin 50, Fin 50, Fin 100]
   \<and> compute_shotgun_pooling_values_qpcr [Fin 10, Fin 50, Fin 100] None 10 50 (1/100)
        = Inr [Fin 0, Fin 100000, Fin 50000]"
proof -
  have h: "length (fracs_or_default None [Fin 10, Fin 50, Fin 100])
             = length [Fin 10, Fin 50, Fin 100]"
    by simp
  from exclusion_at_threshold [OF h, of 10 50 "1/100"] obtain sample_vols where
    v: "compute_shotgun_pooling_values_qpcr [Fin 10, Fin 50, Fin 100] None 10 50 (1/100)
          = Inr sample_vols"
    by blast
  have e: "sample_fracs_pass [Fin 10, Fin 50, Fin 100]
             (fracs_or_default None [Fin 10, Fin 50, Fin 100]) 10
        = Inr [Fin 0, Fin (1/3), Fin (1/3)]
   \<and> sample_concs_floor [Fin 10, Fin 50, Fin 100] 50 = Inr [Fin 50, Fin 50, Fin 100]
   \<and> compute_shotgun_pooling_values_qpcr [Fin 10, Fin 50, Fin 100] None 10 50 (1/100)
        = Inr [Fin 0, Fin 100000, Fin 50000]"
    by (simp add: pooling_evals)
  from h v e show ?thesis by simp
qed

text \<open>
  Claim C3 as stated fails: two samples at 5 nM, both below \<^verbatim>\<open>min_conc = 10\<close>, give
  a result, not an error, and the result is NaN for both.
\<close>

theorem all_excluded_counterexample:
  "compute_shotgun_pooling_values_qpcr [Fin 5, Fin 5] None 10 50 (1/100) = Inr [NaN, NaN]"
  by (simp add: pooling_evals)

theorem all_excluded_gives_NaN_witness:
  "length (fracs_or_default (Some [Fin (1/4), Fin (3/4)]) [Fin 3, Fin 10]) = length [Fin 3, Fin 10]
   \<and> fle (Fin 3) (Fin 10) \<and> fle (Fin 10) (Fin 10)
   \<and> compute_shotgun_pooling_values_qpcr [Fin 3, Fin 10] (Some [Fin (1/4), Fin (3/4)]) 10 50
        (1/100) = Inr [NaN, NaN]"
proof -
  have h: "length (fracs_or_default (Some [Fin (1/4), Fin (3/4)]) [Fin 3, Fin 10])
             = length [Fin 3, Fin 10]"
    by (simp add: fracs_or_default_def)
  have a: "fle (Fin 3) (Fin 10)" and b: "fle (Fin 10) (Fin 10)" by (simp_all add: fle_def)
  then have ex: "\<forall>c \<in> set [Fin 3, Fin 10]. fle c (Fin 10)" by simp
  from all_excluded_gives_NaN [OF h ex, of 50 "1/100"]
  have "compute_shotgun_pooling_values_qpcr [Fin 3, Fin 10] (Some [Fin (1/4), Fin (3/4)]) 10 50
        (1/100) = Inr [NaN, NaN]"
    by (simp add: numeral_2_eq_2)
  with h a b show ?thesis by simp
qed

text \<open>
  Claim C4 as stated fails when the surviving weights sum to zero: with the weights
  \<open>1/2, 1/2, 0\<close> and the concentrations 5, 5 and 100 nM the third sample survives, and
  all renormalized weights and all volumes are NaN.
\<close>

theorem renormalized_weights_counterexample:
  "\<not> fle (Fin 100) (Fin 10)
   \<and> sample_fracs_pass [Fin 5, Fin 5, Fin 100] [Fin (1/2), Fin (1/2), Fin 0] 10
        = Inr [Fin 0, Fin 0, Fin 0]
   \<and> renormalize [Fin 0, Fin 0, Fin 0] = [NaN, NaN, NaN]
   \<and> compute_shotgun_pooling_values_qpcr [Fin 5, Fin 5, Fin 100]
        (Some [Fin (1/2), Fin (1/2), Fin 0]) 10 50 (1/100) = Inr [NaN, NaN, NaN]"
  by (simp add: pooling_evals)

theorem renormalized_weights_sum_to_one_witness:
  "length [1/4, 1/4, 1/2 :: real] = length [Fin 5, Fin 20, Fin 100]
   \<and> sum_list (surviving [Fin 5, Fin 20, Fin 100] [1/4, 1/4, 1/2 :: real] 10) \<noteq> 0
   \<and> (0::real) < 50 \<and> fle ([Fin 5, Fin 20, Fin 100] ! 0) (Fin 10)
   \<and> sample_fracs_pass [Fin 5, Fin 20, Fin 100] (map Fin [1/4, 1/4, 1/2]) 10
        = Inr [Fin 0, Fin (1/4), Fin (1/2)]
   \<and> np_sum (surviving [Fin 5, Fin 20, Fin 100] (renormalize [Fin 0, Fin (1/4), Fin (1/2)]) 10)
        = Fin 1
   \<and> compute_shotgun_pooling_values_qpcr [Fin 5, Fin 20, Fin 100] (Some (map Fin [1/4, 1/4, 1/2]))
        10 50 (1/100) = Inr [Fin 0, Fin (200000/3), Fin (200000/3)]"
proof -
  have h: "length [1/4, 1/4, 1/2 :: real] = length [Fin 5, Fin 20, Fin 100]" by simp
  have nz: "sum_list (surviving [Fin 5, Fin 20, Fin 100] [1/4, 1/4, 1/2 :: real] 10) \<noteq> 0"
    by (simp add: surviving_def fle_def)
  have p: "(0::real) < 50" and x: "fle ([Fin 5, Fin 20, Fin 100] ! 0) (Fin 10)"
    by (simp_all add: fle_def)
  from renormalized_weights_sum_to_one [OF h nz, of 50 "1/100"] obtain fracs_pass where
    f: "sample_fracs_pass [Fin 5, Fin 20, Fin 100] (map Fin [1/4, 1/4, 1/2]) 10 = Inr fracs_pass"
    and s: "np_sum (surviving [Fin 5, Fin 20, Fin 100] (renormalize fracs_pass) 10) = Fin 1"
    by blast
  have e: "sample_fracs_pass [Fin 5, Fin 20, Fin 100] (map Fin [1/4, 1/4, 1/2]) 10
        = Inr [Fin 0, Fin (1/4), Fin (1/2)]"
    by (simp add: pooling_evals)
  with f s have s': "np_sum (surviving [Fin 5, Fin 20, Fin 100]
       (renormalize [Fin 0, Fin (1/4), Fin (1/2)]) 10) = Fin 1"
    by simp
  have v: "compute_shotgun_pooling_values_qpcr [Fin 5, Fin 20, Fin 100]
        (Some (map Fin [1/4, 1/4, 1/2])) 10 50 (1/100)
          = Inr [Fin 0, Fin (200000/3), Fin (200000/3)]"
    by (simp add: pooling_evals)
  from h nz p x e s' v show ?thesis by blast
qed

section \<open>Properties of the pooling pick list\<close>

lemma char_of_eq_iff: "char_of (n::nat) = c \<longleftrightarrow> n mod 256 = of_char c"
proof -
  have "char_of n = c \<longleftrightarrow> char_of n = char_of (of_char c :: nat)" by simp
  also have "\<dots> \<longleftrightarrow> n mod 256 = (of_char c :: nat) mod 256" by (rule char_of_quasi_inj)
  also have "\<dots> \<longleftrightarrow> n mod 256 = of_char c" by simp
  finally show ?thesis .
qed

lemma pool_well_rollover:
  assumes "flt (Fin mx) (fadd tot (pv ! i ! j))"
  shows "pool_well mx sh pv i \<lparr>running_tot = tot, d = k, contents = cs\<rparr> j
     = \<lparr>running_tot = pv ! i ! j, d = k + 1,
        contents = cs @ [pick_list_line (well_name i j) (fmt2 (pv ! i ! j)) (dest_name sh (k + 1))]\<rparr>"
  using assms by (simp add: pool_well_def Let_def)

lemma pool_well_fill:
  assumes "\<not> flt (Fin mx) (fadd tot (pv ! i ! j))"
  shows "pool_well mx sh pv i \<lparr>running_tot = tot, d = k, contents = cs\<rparr> j
     = \<lparr>running_tot = fadd tot (pv ! i ! j), d = k,
        contents = cs @ [pick_list_line (well_name i j) (fmt2 (pv ! i ! j)) (dest_name sh k)]\<rparr>"
  using assms by (simp add: pool_well_def Let_def)







lemmas pick_evals = pooling_loop_def pool_well_rollover pool_well_fill array_cols_def Let_def
  dest_name_def pick_list_line_def well_name_def show_nat.simps digit_char_def rint_def
  char_of_eq_iff pick_list_header_def

lemma pooling_loop_one_well:
  "pooling_loop [[Fin 50000]] 60000 (16, 24) =
     \<lparr>running_tot = Fin 50000, d = 1, contents =
       [pick_list_header, ''1,384LDV_AQ_B2_HT,A1,,50000.00,NormalizedDNA,A1'']\<rparr>"
  by (simp add: pick_evals)

lemma pooling_loop_two_wells:
  "pooling_loop [[Fin 50000, Fin 20000]] 60000 (16, 24) =
     \<lparr>running_tot = Fin 20000, d = 2, contents =
       [pick_list_header, ''1,384LDV_AQ_B2_HT,A1,,50000.00,NormalizedDNA,A1'',
        ''1,384LDV_AQ_B2_HT,A2,,20000.00,NormalizedDNA,A2'']\<rparr>"
  by (simp add: pick_evals)

lemma pooling_loop_three_wells:
  "pooling_loop [[Fin 50000, Fin 20000, Fin 20000]] 60000 (16, 24) =
     \<lparr>running_tot = Fin 40000, d = 2, contents =
       [pick_list_header, ''1,384LDV_AQ_B2_HT,A1,,50000.00,NormalizedDNA,A1'',
        ''1,384LDV_AQ_B2_HT,A2,,20000.00,NormalizedDNA,A2'',
        ''1,384LDV_AQ_B2_HT,A3,,20000.00,NormalizedDNA,A2'']\<rparr>"
  by (simp add: pick_evals)

text \<open>
  Claim C6, as the code has it. A well rolls over to the next destination counter, and
  resets the running total to its own volume, exactly when the running total plus its
  volume exceeds \<^verbatim>\<open>max_vol_per_well\<close>; otherwise the counter stays and the volume is
  added. With \<^verbatim>\<open>max_vol_per_well = 60000\<close> the well of volume
  50000 goes to destination counter 1; the second well of volume 20000 would bring the
  total to 70000, above the maximum, so it rolls over to counter 2 and the running total
  is reset to 20000; a third well of volume 20000 stays at counter 2, with the running
  total 40000. The lines name the destinations A1, A2 and A2.
\<close>

theorem pooling_rollover:
  "d (pool_well max_vol_per_well dest_plate_shape pool_vols i st j)
     = (if flt (Fin max_vol_per_well) (fadd (running_tot st) (pool_vols ! i ! j))
        then d st + 1 else d st)
   \<and> running_tot (pool_well max_vol_per_well dest_plate_shape pool_vols i st j)
     = (if flt (Fin max_vol_per_well) (fadd (running_tot st) (pool_vols ! i ! j))
        then pool_vols ! i ! j else fadd (running_tot st) (pool_vols ! i ! j))
   \<and> d (pooling_loop [[Fin 50000]] 60000 (16, 24)) = 1
   \<and> running_tot (pooling_loop [[Fin 50000]] 60000 (16, 24)) = Fin 50000
   \<and> flt (Fin 60000) (fadd (Fin 50000) (Fin 20000))
   \<and> d (pooling_loop [[Fin 50000, Fin 20000]] 60000 (16, 24)) = 2
   \<and> running_tot (pooling_loop [[Fin 50000, Fin 20000]] 60000 (16, 24)) = Fin 20000
   \<and> d (pooling_loop [[Fin 50000, Fin 20000, Fin 20000]] 60000 (16, 24)) = 2
   \<and> running_tot (pooling_loop [[Fin 50000, Fin 20000, Fin 20000]] 60000 (16, 24)) = Fin 40000
   \<and> contents (pooling_loop [[Fin 50000, Fin 20000, Fin 20000]] 60000 (16, 24)) =
       [pick_list_header, ''1,384LDV_AQ_B2_HT,A1,,50000.00,NormalizedDNA,A1'',
        ''1,384LDV_AQ_B2_HT,A2,,20000.00,NormalizedDNA,A2'',
        ''1,384LDV_AQ_B2_HT,A3,,20000.00,NormalizedDNA,A2'']"
  by (simp add: pooling_loop_one_well pooling_loop_two_wells pooling_loop_three_wells
      pool_well_def Let_def)

text \<open>
  Claim C6 as stated fails: the second of the wells 50000 and 20000 is assigned
  destination counter 2, not 1, and the third well of 20000 triggers no rollover and
  leaves the running total at 40000, not 20000.
\<close>

theorem pooling_rollover_counterexample:
  "d (pooling_loop [[Fin 50000, Fin 20000]] 60000 (16, 24)) = 2
   \<and> contents (pooling_loop [[Fin 50000, Fin 20000]] 60000 (16, 24)) ! 2
        = ''1,384LDV_AQ_B2_HT,A2,,20000.00,NormalizedDNA,A2''
   \<and> d (pooling_loop [[Fin 50000, Fin 20000, Fin 20000]] 60000 (16, 24))
        = d (pooling_loop [[Fin 50000, Fin 20000]] 60000 (16, 24))
   \<and> running_tot (pooling_loop [[Fin 50000, Fin 20000, Fin 20000]] 60000 (16, 24)) = Fin 40000"
  by (simp add: pooling_loop_two_wells pooling_loop_three_wells)



section \<open>Properties of the well remapping\<close>


















lemma reformat_all:
  assumes "\<forall>w \<in> set ws. reformat_well w = Inr (f w)"
  shows "reformat_interleaved_to_columns ws = Inr (map f ws)"
  using assms by (induction ws) simp_all











section \<open>The shape check of the normalization pick list\<close>

lemmas norm_evals = format_dna_norm_picklist_def norm_picklist_row_def index_array_def
  spread_plate_def Let_def

text \<open>
  Claim C9 does not hold of the code: the guard \<^verbatim>\<open>dna_vols.shape != wells.shape !=
  water_vols.shape\<close> is a chain, true only when the shape of \<^verbatim>\<open>wells\<close> differs from
  both others. Two DNA volumes, two wells and three water volumes pass it and a pick
  list is returned, the third water volume ignored.
\<close>

theorem format_dna_norm_picklist_shape_slip:
  "format_dna_norm_picklist str_float [Fin 1, Fin 2] [Fin 3, Fin 4, Fin 5] [''A1'', ''A2'']
      None None None None ''Water'' (Some (PlateStr ''384PP_AQ_BP2_HT'')) ''384PP_AQ_BP2_HT''
      ''NormalizedDNA''
    = Inr (join [CHR 0x0A]
        [norm_picklist_header,
         join [CHR 0x09] [str_float NaN, ''Water'', ''384PP_AQ_BP2_HT'', ''A1'', str_float NaN,
           str_float (Fin 3), ''NormalizedDNA'', ''A1''],
         join [CHR 0x09] [str_float NaN, ''Water'', ''384PP_AQ_BP2_HT'', ''A2'', str_float NaN,
           str_float (Fin 4), ''NormalizedDNA'', ''A2''],
         join [CHR 0x09] [str_float NaN, ''Sample'', ''384PP_AQ_BP2_HT'', ''A1'', str_float NaN,
           str_float (Fin 1), ''NormalizedDNA'', ''A1''],
         join [CHR 0x09] [str_float NaN, ''Sample'', ''384PP_AQ_BP2_HT'', ''A2'', str_float NaN,
           str_float (Fin 2), ''NormalizedDNA'', ''A2'']])"
  by (simp add: norm_evals)

text \<open>The guard does fire when the shape of \<^verbatim>\<open>wells\<close> differs from both others.\<close>

lemma format_dna_norm_picklist_shape_checked:
  "format_dna_norm_picklist str_float [Fin 1, Fin 2] [Fin 3, Fin 4, Fin 5] [''A1'']
      None None None None ''Water'' (Some (PlateStr ''384PP_AQ_BP2_HT'')) ''384PP_AQ_BP2_HT''
      ''NormalizedDNA'' = Inl ValueError"
  by (simp add: norm_evals)

end
